theory Spec2Isabelle
  imports Main "HOL-Library.Word" "HOL-Library.Char_ord" "HOL-Library.List_Lexorder"
begin

section \<open>The register repository of pyuavcan over its SQLite storage backend\<close>

text \<open>
  The development embeds \<^verbatim>\<open>pyuavcan/application/register/_repository.py\<close> (class
  \<^verbatim>\<open>Repository\<close>) and \<^verbatim>\<open>pyuavcan/application/register/storage/sqlite.py\<close> (class
  \<^verbatim>\<open>SQLiteStorage\<close>). Every method becomes a function that takes the state of the storage
  object and returns its result together with the state after the call; an exception is
  the left summand of the result.

  Strings are lists of \<open>char\<close>; a \<open>char\<close> stands for a code point below 256. Names are
  compared and ordered by the database engine, whose default collation compares the
  encoded text bytewise; on lists of characters this is the lexicographic order.
\<close>

subsection \<open>Values, entries and errors\<close>

text \<open>
  \<^verbatim>\<open>uavcan.register.Value.1.0\<close>: a tagged union; exactly one variant is populated, and
  \<^verbatim>\<open>Value()\<close> is the empty variant. Integer and floating-point elements are kept as the
  bit patterns of their width.
\<close>

datatype Value =
    Empty
  | String string
  | Unstructured "8 word list"
  | Bit "bool list"
  | Integer64 "64 word list"
  | Integer32 "32 word list"
  | Integer16 "16 word list"
  | Integer8 "8 word list"
  | Natural64 "64 word list"
  | Natural32 "32 word list"
  | Natural16 "16 word list"
  | Natural8 "8 word list"
  | Real64 "64 word list"
  | Real32 "32 word list"
  | Real16 "16 word list"

text \<open>
  Modelled from the spec: \<^verbatim>\<open>RelaxedValue\<close> is declared in \<^verbatim>\<open>_primitives.py\<close>, which is not
  among the sources. A candidate is either already a \<open>Value\<close> (\<open>Strict\<close>) or a native
  value: text, a byte sequence, or a scalar or sequence of booleans, integers or floats
  (a float is kept as its binary64 bit pattern).
\<close>

datatype Native = NBool bool | NInt int | NFloat "64 word"

datatype RelaxedValue =
    Strict Value
  | Text string
  | Bytes "8 word list"
  | Scalar Native
  | Sequence "Native list"

text \<open>
  \<^verbatim>\<open>Entry(value, mutable)\<close>. The value slot holds what the caller or the decoder put
  there: \<^verbatim>\<open>SQLiteStorage.get\<close> stores the result of \<^verbatim>\<open>pyuavcan.dsdl.deserialize\<close>, which is
  \<^verbatim>\<open>None\<close> for a blob that is not a valid serialization, so the slot is optional.
\<close>

record Entry =
  value' :: "Value option"
  mutable :: bool

text \<open>
  The exceptions of the \<^verbatim>\<open>sqlite3\<close> library are of two kinds here: \<^verbatim>\<open>sqlite3.OperationalError\<close>,
  the one the storage catches, and every other one (\<^verbatim>\<open>DatabaseError\<close>, \<^verbatim>\<open>ProgrammingError\<close>
  and so on), which it does not.
\<close>

datatype sqlite3_exception = OperationalError | OtherError

text \<open>
  What a call can raise: the two errors of the repository, the \<^verbatim>\<open>StorageError\<close> of the
  storage, and an exception of \<^verbatim>\<open>sqlite3\<close> that nothing catches and so reaches the caller
  as it is.
\<close>

datatype error =
    MissingRegisterError string
  | ConflictError
  | StorageError
  | SQLite3Error sqlite3_exception

subsection \<open>SQLiteStorage\<close>

text \<open>
  What \<^verbatim>\<open>sqlite3.connect(database)\<close> opens: the database in memory for the name
  \<^verbatim>\<open>:memory:\<close> exactly, a private temporary database (gone when the connection closes) for
  the empty name, and the file of that name otherwise.
\<close>

datatype database = InMemory | Temporary | File string

text \<open>
  The behaviour of the database engine on one call of the connection: it goes through,
  or the statement raises and does nothing, or the statement goes through and the commit
  after it raises.
\<close>

datatype fault = NoFault | ExecuteRaises sqlite3_exception | CommitRaises sqlite3_exception

text \<open>
  The state of a \<^verbatim>\<open>SQLiteStorage\<close> object: \<open>loc\<close> is \<^verbatim>\<open>self._loc\<close>; \<open>database\<close> is what the
  connection \<^verbatim>\<open>self._db\<close> has opened; \<open>register\<close> is the content of the table \<^verbatim>\<open>register\<close>
  seen through \<^verbatim>\<open>self._db\<close>, one triple (name, mutable, value) per row (the column \<^verbatim>\<open>ts\<close> is
  never read); \<open>faults\<close> is the behaviour of the database engine on the calls to come,
  each call consuming the head. An empty schedule is an engine that executes every
  statement and every commit. The type \<open>'b\<close> is the type of serialized values.
\<close>

record 'b SQLiteStorage =
  loc :: string
  database :: database
  register :: "(string \<times> bool \<times> 'b) list"
  faults :: "fault list"

definition LOCATION_VOLATILE :: string where
  "LOCATION_VOLATILE = '':memory:''"

text \<open>
  \<^verbatim>\<open>self._db.execute(...)\<close> or \<^verbatim>\<open>self._db.executemany(...)\<close>, followed by \<^verbatim>\<open>self._db.commit()\<close>
  when \<open>commit\<close> is set. \<open>statement\<close> is what the statement does to the table (nothing for
  a \<^verbatim>\<open>select\<close>, whose result the caller reads off the table). When the commit raises, the
  statement has been executed and the connection goes on seeing its effect.
\<close>

definition Connection_execute ::
  "'b SQLiteStorage \<Rightarrow> ((string \<times> bool \<times> 'b) list \<Rightarrow> (string \<times> bool \<times> 'b) list) \<Rightarrow> bool \<Rightarrow>
   (sqlite3_exception + unit) \<times> 'b SQLiteStorage" where
  "Connection_execute st statement commit =
     (case faults st of
        [] \<Rightarrow> (Inr (), st\<lparr>register := statement (register st)\<rparr>)
      | f # fs \<Rightarrow>
          (case f of
             NoFault \<Rightarrow> (Inr (), st\<lparr>register := statement (register st), faults := fs\<rparr>)
           | ExecuteRaises x \<Rightarrow> (Inl x, st\<lparr>faults := fs\<rparr>)
           | CommitRaises x \<Rightarrow>
               (if commit then Inl x else Inr (),
                st\<lparr>register := statement (register st), faults := fs\<rparr>)))"

text \<open>
  \<^verbatim>\<open>SQLiteStorage._execute\<close>: runs one statement, and its commit when asked, turning
  \<^verbatim>\<open>sqlite3.OperationalError\<close> into \<^verbatim>\<open>StorageError\<close>; any other exception goes through.
\<close>

definition SQLiteStorage_execute ::
  "'b SQLiteStorage \<Rightarrow> ((string \<times> bool \<times> 'b) list \<Rightarrow> (string \<times> bool \<times> 'b) list) \<Rightarrow> bool \<Rightarrow>
   (error + unit) \<times> 'b SQLiteStorage" where
  "SQLiteStorage_execute st statement commit =
     (case Connection_execute st statement commit of
        (Inl OperationalError, st1) \<Rightarrow> (Inl StorageError, st1)
      | (Inl OtherError, st1) \<Rightarrow> (Inl (SQLite3Error OtherError), st1)
      | (Inr _, st1) \<Rightarrow> (Inr (), st1))"

text \<open>\<^verbatim>\<open>select count(*) from register\<close>\<close>

definition SQLiteStorage_count :: "'b SQLiteStorage \<Rightarrow> (error + nat) \<times> 'b SQLiteStorage" where
  "SQLiteStorage_count st =
     (case SQLiteStorage_execute st (\<lambda>rows. rows) False of
        (Inl ex, st1) \<Rightarrow> (Inl ex, st1)
      | (Inr _, st1) \<Rightarrow> (Inr (length (register st1)), st1))"

text \<open>\<^verbatim>\<open>select name from register order by name\<close>\<close>

definition SQLiteStorage_get_names :: "'b SQLiteStorage \<Rightarrow> (error + string list) \<times> 'b SQLiteStorage" where
  "SQLiteStorage_get_names st =
     (case SQLiteStorage_execute st (\<lambda>rows. rows) False of
        (Inl ex, st1) \<Rightarrow> (Inl ex, st1)
      | (Inr _, st1) \<Rightarrow> (Inr (sort (map fst (register st1))), st1))"

text \<open>
  \<^verbatim>\<open>self.get_names()[index]\<close> with \<^verbatim>\<open>IndexError\<close> caught: a Python list index below zero
  counts from the end of the list.
\<close>

definition SQLiteStorage_get_name_at_index ::
  "'b SQLiteStorage \<Rightarrow> int \<Rightarrow> (error + string option) \<times> 'b SQLiteStorage" where
  "SQLiteStorage_get_name_at_index st index =
     (case SQLiteStorage_get_names st of
        (Inl ex, st1) \<Rightarrow> (Inl ex, st1)
      | (Inr names, st1) \<Rightarrow>
          (let n = int (length names);
               j = (if index < 0 then index + n else index)
           in if 0 \<le> j \<and> j < n then (Inr (Some (names ! nat j)), st1) else (Inr None, st1)))"

text \<open>
  \<^verbatim>\<open>select mutable, value from register where name = ?\<close> and \<^verbatim>\<open>fetchone()\<close>; the blob goes
  through \<open>deserialize\<close>, the parameter standing for \<^verbatim>\<open>pyuavcan.dsdl.deserialize\<close>.
\<close>

definition SQLiteStorage_get ::
  "('b \<Rightarrow> Value option) \<Rightarrow> 'b SQLiteStorage \<Rightarrow> string \<Rightarrow> (error + Entry option) \<times> 'b SQLiteStorage" where
  "SQLiteStorage_get deserialize st name =
     (case SQLiteStorage_execute st (\<lambda>rows. rows) False of
        (Inl ex, st1) \<Rightarrow> (Inl ex, st1)
      | (Inr _, st1) \<Rightarrow>
          (case find (\<lambda>r. fst r = name) (register st1) of
             None \<Rightarrow> (Inr None, st1)
           | Some (_, m, v) \<Rightarrow> (Inr (Some \<lparr>value' = deserialize v, mutable = m\<rparr>), st1)))"

text \<open>
  \<^verbatim>\<open>insert or replace into register (name, mutable, value) values (?, ?, ?)\<close>, committed: the
  row of that name, if any, is removed and the new row is added. \<open>serialize\<close> is the
  parameter standing for \<^verbatim>\<open>pyuavcan.dsdl.serialize\<close>, applied to the content of the value
  slot.
\<close>

definition SQLiteStorage_set ::
  "(Value option \<Rightarrow> 'b) \<Rightarrow> 'b SQLiteStorage \<Rightarrow> string \<Rightarrow> Entry \<Rightarrow> (error + unit) \<times> 'b SQLiteStorage" where
  "SQLiteStorage_set serialize st name e =
     (let serialized = serialize (value' e) in
      SQLiteStorage_execute st
        (\<lambda>rows. filter (\<lambda>r. fst r \<noteq> name) rows @ [(name, mutable e, serialized)]) True)"

text \<open>
  \<^verbatim>\<open>SQLiteStorage.delete\<close>: \<^verbatim>\<open>executemany("delete from register where name = ?", ...)\<close>, one
  deletion per given name, and the commit, in a \<^verbatim>\<open>try\<close> of its own that turns
  \<^verbatim>\<open>sqlite3.OperationalError\<close> into \<^verbatim>\<open>StorageError\<close>.
\<close>

definition SQLiteStorage_delete ::
  "'b SQLiteStorage \<Rightarrow> string list \<Rightarrow> (error + unit) \<times> 'b SQLiteStorage" where
  "SQLiteStorage_delete st names =
     (case Connection_execute st (\<lambda>rows. foldl (\<lambda>rs x. filter (\<lambda>r. fst r \<noteq> x) rs) rows names) True of
        (Inl OperationalError, st1) \<Rightarrow> (Inl StorageError, st1)
      | (Inl OtherError, st1) \<Rightarrow> (Inl (SQLite3Error OtherError), st1)
      | (Inr _, st1) \<Rightarrow> (Inr (), st1))"

text \<open>
  \<^verbatim>\<open>str.strip\<close> and \<^verbatim>\<open>str.lower\<close> on code points below 256: the white-space characters are
  9 to 13, 28 to 32, 133 and 160; the letters with a lower-case form are A to Z and 192
  to 222 without 215, each 32 below its lower-case form.
\<close>

definition isspace :: "char \<Rightarrow> bool" where
  "isspace c = (let k = (of_char c :: nat) in (9 \<le> k \<and> k \<le> 13) \<or> (28 \<le> k \<and> k \<le> 32) \<or> k = 133 \<or> k = 160)"

definition strip :: "string \<Rightarrow> string" where
  "strip s = rev (dropWhile isspace (rev (dropWhile isspace s)))"

definition lower_char :: "char \<Rightarrow> char" where
  "lower_char c =
     (let k = (of_char c :: nat) in
      if (65 \<le> k \<and> k \<le> 90) \<or> (192 \<le> k \<and> k \<le> 214) \<or> (216 \<le> k \<and> k \<le> 222)
      then char_of (k + 32) else c)"

definition lower :: "string \<Rightarrow> string" where
  "lower s = map lower_char s"

text \<open>
  \<^verbatim>\<open>sqlite3.connect(self._loc, timeout=_TIMEOUT)\<close>: what it opens and the table found there.
  \<open>files\<close> is the file system: the rows of the table in the database file of a name (none
  for a file that is new or has no such table yet), or \<open>None\<close> for a file that cannot be
  opened, for which \<^verbatim>\<open>connect\<close> raises \<^verbatim>\<open>sqlite3.OperationalError\<close>.
\<close>

definition connect ::
  "(string \<Rightarrow> (string \<times> bool \<times> 'b) list option) \<Rightarrow> string \<Rightarrow>
   sqlite3_exception + database \<times> (string \<times> bool \<times> 'b) list" where
  "connect files name =
     (if name = '':memory:'' then Inr (InMemory, [])
      else if name = [] then Inr (Temporary, [])
      else (case files name of
              None \<Rightarrow> Inl OperationalError
            | Some rows \<Rightarrow> Inr (File name, rows)))"

text \<open>
  \<^verbatim>\<open>SQLiteStorage.__init__\<close>: \<^verbatim>\<open>str(location or _LOCATION_VOLATILE).strip()\<close>, the connection
  (outside any \<^verbatim>\<open>try\<close>), then the committed statement that creates the table if it is absent,
  then \<^verbatim>\<open>get_names()\<close> for the log line. The location is a \<^verbatim>\<open>str\<close>, and the empty one is the
  one Python takes for false. \<open>schedule\<close> is the engine's behaviour from then on.
\<close>

definition SQLiteStorage_init ::
  "string \<Rightarrow> (string \<Rightarrow> (string \<times> bool \<times> 'b) list option) \<Rightarrow> fault list \<Rightarrow> error + 'b SQLiteStorage" where
  "SQLiteStorage_init location files schedule =
     (let l = strip (if location = [] then LOCATION_VOLATILE else location) in
      case connect files l of
        Inl ex \<Rightarrow> Inl (SQLite3Error ex)
      | Inr (db, rows) \<Rightarrow>
          (case SQLiteStorage_execute \<lparr>loc = l, database = db, register = rows, faults = schedule\<rparr>
                  (\<lambda>rows. rows) True of
             (Inl ex, _) \<Rightarrow> Inl ex
           | (Inr _, st1) \<Rightarrow>
               (case SQLiteStorage_get_names st1 of
                  (Inl ex, _) \<Rightarrow> Inl ex
                | (Inr _, st2) \<Rightarrow> Inr st2)))"

definition SQLiteStorage_persistent :: "'b SQLiteStorage \<Rightarrow> bool" where
  "SQLiteStorage_persistent st = (lower (loc st) \<noteq> LOCATION_VOLATILE)"

subsection \<open>Repository\<close>

text \<open>
  A \<^verbatim>\<open>Repository\<close> holds its backend and nothing else, so its methods act on the state of
  the storage. \<open>convert\<close> is the parameter standing for \<^verbatim>\<open>convert\<close> of \<^verbatim>\<open>_primitives.py\<close>,
  applied to the content of the value slot and the candidate; \<open>fnmatchcase\<close> the one
  standing for \<^verbatim>\<open>fnmatch.fnmatchcase\<close> (name first, pattern second).
\<close>

definition Repository_persistent :: "'b SQLiteStorage \<Rightarrow> bool" where
  "Repository_persistent st = SQLiteStorage_persistent st"

definition Repository_keys :: "'b SQLiteStorage \<Rightarrow> (error + string list) \<times> 'b SQLiteStorage" where
  "Repository_keys st = SQLiteStorage_get_names st"

definition Repository_iter :: "'b SQLiteStorage \<Rightarrow> (error + string list) \<times> 'b SQLiteStorage" where
  "Repository_iter st = Repository_keys st"

definition Repository_len :: "'b SQLiteStorage \<Rightarrow> (error + nat) \<times> 'b SQLiteStorage" where
  "Repository_len st = SQLiteStorage_count st"

definition Repository_get_name_at_index ::
  "'b SQLiteStorage \<Rightarrow> int \<Rightarrow> (error + string option) \<times> 'b SQLiteStorage" where
  "Repository_get_name_at_index st index = SQLiteStorage_get_name_at_index st index"

definition Repository_get ::
  "('b \<Rightarrow> Value option) \<Rightarrow> 'b SQLiteStorage \<Rightarrow> string \<Rightarrow> (error + Entry option) \<times> 'b SQLiteStorage" where
  "Repository_get deserialize st name = SQLiteStorage_get deserialize st name"

definition Repository_set ::
  "(Value option \<Rightarrow> RelaxedValue \<Rightarrow> Value option) \<Rightarrow> (Value option \<Rightarrow> 'b) \<Rightarrow> ('b \<Rightarrow> Value option) \<Rightarrow>
   'b SQLiteStorage \<Rightarrow> string \<Rightarrow> RelaxedValue \<Rightarrow> (error + unit) \<times> 'b SQLiteStorage" where
  "Repository_set convert serialize deserialize st name v =
     (case SQLiteStorage_get deserialize st name of
        (Inl ex, st1) \<Rightarrow> (Inl ex, st1)
      | (Inr None, st1) \<Rightarrow> (Inl (MissingRegisterError name), st1)
      | (Inr (Some e), st1) \<Rightarrow>
          (case convert (value' e) v of
             None \<Rightarrow> (Inl ConflictError, st1)
           | Some converted \<Rightarrow>
               SQLiteStorage_set serialize st1 name \<lparr>value' = Some converted, mutable = mutable e\<rparr>))"

definition Repository_create ::
  "(Value option \<Rightarrow> RelaxedValue \<Rightarrow> Value option) \<Rightarrow> (Value option \<Rightarrow> 'b) \<Rightarrow> ('b \<Rightarrow> Value option) \<Rightarrow>
   'b SQLiteStorage \<Rightarrow> string \<Rightarrow> Value \<Rightarrow> bool \<Rightarrow> (error + unit) \<times> 'b SQLiteStorage" where
  "Repository_create convert serialize deserialize st name v mut =
     (case Repository_set convert serialize deserialize st name (Strict v) of
        (Inl (MissingRegisterError _), st1) \<Rightarrow>
          SQLiteStorage_set serialize st1 name \<lparr>value' = Some v, mutable = mut\<rparr>
      | r \<Rightarrow> r)"

definition Repository_access ::
  "(Value option \<Rightarrow> RelaxedValue \<Rightarrow> Value option) \<Rightarrow> (Value option \<Rightarrow> 'b) \<Rightarrow> ('b \<Rightarrow> Value option) \<Rightarrow>
   'b SQLiteStorage \<Rightarrow> string \<Rightarrow> Value \<Rightarrow> (error + Entry) \<times> 'b SQLiteStorage" where
  "Repository_access convert serialize deserialize st name v =
     (case SQLiteStorage_get deserialize st name of
        (Inl ex, st1) \<Rightarrow> (Inl ex, st1)
      | (Inr None, st1) \<Rightarrow> (Inr \<lparr>value' = Some Empty, mutable = False\<rparr>, st1)
      | (Inr (Some e), st1) \<Rightarrow>
          (case (mutable e, convert (value' e) (Strict v)) of
             (True, Some converted) \<Rightarrow>
               (let e1 = \<lparr>value' = Some converted, mutable = mutable e\<rparr> in
                case SQLiteStorage_set serialize st1 name e1 of
                  (Inl ex, st2) \<Rightarrow> (Inl ex, st2)
                | (Inr _, st2) \<Rightarrow> (Inr e1, st2))
           | _ \<Rightarrow> (Inr e, st1)))"

definition Repository_delete ::
  "(string \<Rightarrow> string \<Rightarrow> bool) \<Rightarrow> 'b SQLiteStorage \<Rightarrow> string \<Rightarrow> (error + unit) \<times> 'b SQLiteStorage" where
  "Repository_delete fnmatchcase st wildcard =
     (case Repository_keys st of
        (Inl ex, st1) \<Rightarrow> (Inl ex, st1)
      | (Inr ks, st1) \<Rightarrow> SQLiteStorage_delete st1 (filter (\<lambda>n. fnmatchcase n wildcard) ks))"

definition Repository_getitem ::
  "('b \<Rightarrow> Value option) \<Rightarrow> 'b SQLiteStorage \<Rightarrow> string \<Rightarrow> (error + Entry) \<times> 'b SQLiteStorage" where
  "Repository_getitem deserialize st item =
     (case Repository_get deserialize st item of
        (Inl ex, st1) \<Rightarrow> (Inl ex, st1)
      | (Inr None, st1) \<Rightarrow> (Inl (MissingRegisterError item), st1)
      | (Inr (Some e), st1) \<Rightarrow> (Inr e, st1))"

subsection \<open>Instances of the parameters\<close>

text \<open>
  The operations above are run at concrete inputs on the following instances of their
  parameters. Every theorem below is stated for arbitrary parameters.

  Modelled from the spec: \<^verbatim>\<open>convert\<close> of \<^verbatim>\<open>_primitives.py\<close> is not among the sources. The
  instance follows the conversion contract of the spec where it fixes the result: a
  candidate that is already a \<open>Value\<close> of the variant and array length of the existing
  value is accepted as it is; a native boolean or sequence of booleans becomes a bit
  array, text a string and a byte sequence an unstructured value, each accepted when the
  existing value is of that variant and of the resulting length (\<^verbatim>\<open>rs.set("foo", False)\<close>
  on a one-element bit array succeeds in the doctest of \<^verbatim>\<open>Repository.set\<close>, \<^verbatim>\<open>[True, False]\<close>
  is a conflict there). Native numbers are rejected here: the spec leaves their narrowing
  and widening open.
\<close>

fun shape :: "Value \<Rightarrow> nat \<times> nat" where
  "shape Empty = (0, 0)"
| "shape (String s) = (1, length s)"
| "shape (Unstructured xs) = (2, length xs)"
| "shape (Bit xs) = (3, length xs)"
| "shape (Integer64 xs) = (4, length xs)"
| "shape (Integer32 xs) = (5, length xs)"
| "shape (Integer16 xs) = (6, length xs)"
| "shape (Integer8 xs) = (7, length xs)"
| "shape (Natural64 xs) = (8, length xs)"
| "shape (Natural32 xs) = (9, length xs)"
| "shape (Natural16 xs) = (10, length xs)"
| "shape (Natural8 xs) = (11, length xs)"
| "shape (Real64 xs) = (12, length xs)"
| "shape (Real32 xs) = (13, length xs)"
| "shape (Real16 xs) = (14, length xs)"

fun native_bools :: "Native list \<Rightarrow> bool list option" where
  "native_bools [] = Some []"
| "native_bools (NBool b # xs) = (case native_bools xs of None \<Rightarrow> None | Some bs \<Rightarrow> Some (b # bs))"
| "native_bools (_ # xs) = None"

fun convert_model :: "Value option \<Rightarrow> RelaxedValue \<Rightarrow> Value option" where
  "convert_model (Some existing) (Strict v) = (if shape v = shape existing then Some v else None)"
| "convert_model (Some (Bit xs)) (Scalar (NBool b)) = (if length xs = 1 then Some (Bit [b]) else None)"
| "convert_model (Some (Bit xs)) (Sequence ys) =
     (case native_bools ys of
        None \<Rightarrow> None
      | Some bs \<Rightarrow> if length bs = length xs then Some (Bit bs) else None)"
| "convert_model (Some (String s)) (Text t) = (if length t = length s then Some (String t) else None)"
| "convert_model (Some (Unstructured xs)) (Bytes ys) =
     (if length ys = length xs then Some (Unstructured ys) else None)"
| "convert_model _ _ = None"

text \<open>The codec that keeps a value as it is: a blob is the content of the value slot.\<close>

definition serialize_model :: "Value option \<Rightarrow> Value option" where
  "serialize_model v = v"

definition deserialize_model :: "Value option \<Rightarrow> Value option" where
  "deserialize_model b = b"

text \<open>
  \<^verbatim>\<open>fnmatch.fnmatchcase\<close> of the Python library, after its \<^verbatim>\<open>translate\<close>: \<^verbatim>\<open>*\<close> matches any
  run of characters, \<^verbatim>\<open>?\<close> one character, \<^verbatim>\<open>[...]\<close> one character of the class and
  \<^verbatim>\<open>[!...]\<close> one character outside it; a \<^verbatim>\<open>]\<close> that comes first in a class is a member;
  \<^verbatim>\<open>x-y\<close> in a class is the range from \<^verbatim>\<open>x\<close> to \<^verbatim>\<open>y\<close>; a \<^verbatim>\<open>[\<close> with no closing \<^verbatim>\<open>]\<close> is an
  ordinary character, as every other character is. The whole name has to match. The
  instance follows the library on the patterns whose ranges \<^verbatim>\<open>x-y\<close> have \<^verbatim>\<open>x\<close> at or below
  \<^verbatim>\<open>y\<close>; where the library drops a range that has \<^verbatim>\<open>y\<close> below \<^verbatim>\<open>x\<close> and reads the rest of
  the class anew, the instance only takes the range to hold no character.
\<close>

datatype glob = Star | AnyChar | Lit char | Class bool "(char \<times> char) list"

fun class_items :: "string \<Rightarrow> (char \<times> char) list" where
  "class_items (x # m # y # rest) =
     (if m = CHR ''-'' then (x, y) # class_items rest else (x, x) # class_items (m # y # rest))"
| "class_items (x # rest) = (x, x) # class_items rest"
| "class_items [] = []"

text \<open>
  The text of a class, given the pattern after its \<^verbatim>\<open>[\<close>: the characters up to the closing
  \<^verbatim>\<open>]\<close>, where a leading \<^verbatim>\<open>!\<close> and a \<^verbatim>\<open>]\<close> right after the start are skipped in the search.
\<close>

definition class_text :: "string \<Rightarrow> string option" where
  "class_text p =
     (let j0 = (if p \<noteq> [] \<and> hd p = CHR ''!'' then 1 else 0);
          j1 = (if j0 < length p \<and> p ! j0 = CHR '']'' then j0 + 1 else j0);
          tail = drop j1 p
      in if CHR '']'' \<in> set tail
         then Some (take (j1 + length (takeWhile (\<lambda>c. c \<noteq> CHR '']'') tail)) p)
         else None)"

fun translate :: "string \<Rightarrow> glob list" where
  "translate [] = []"
| "translate (c # p) =
     (if c = CHR ''*'' then Star # translate p
      else if c = CHR ''?'' then AnyChar # translate p
      else if c = CHR ''['' then
        (case class_text p of
           None \<Rightarrow> Lit c # translate p
         | Some stuff \<Rightarrow>
             (if hd stuff = CHR ''!'' then Class True (class_items (tl stuff))
              else Class False (class_items stuff)) # translate (drop (length stuff + 1) p))
      else Lit c # translate p)"

definition in_class :: "char \<Rightarrow> (char \<times> char) list \<Rightarrow> bool" where
  "in_class c items = list_ex (\<lambda>(x, y). x \<le> c \<and> c \<le> y) items"

fun glob_match :: "glob list \<Rightarrow> string \<Rightarrow> bool" where
  "glob_match [] s = (s = [])"
| "glob_match (Star # gs) [] = glob_match gs []"
| "glob_match (Star # gs) (c # s) = (glob_match gs (c # s) \<or> glob_match (Star # gs) s)"
| "glob_match (AnyChar # gs) [] = False"
| "glob_match (AnyChar # gs) (c # s) = glob_match gs s"
| "glob_match (Lit x # gs) [] = False"
| "glob_match (Lit x # gs) (c # s) = (x = c \<and> glob_match gs s)"
| "glob_match (Class negated items # gs) [] = False"
| "glob_match (Class negated items # gs) (c # s) = (in_class c items \<noteq> negated \<and> glob_match gs s)"

definition fnmatchcase_model :: "string \<Rightarrow> string \<Rightarrow> bool" where
  "fnmatchcase_model name pat = glob_match (translate pat) name"

subsection \<open>Sequences of operations and a sample repository\<close>

text \<open>
  A caller's sequence of \<^verbatim>\<open>create\<close>, \<^verbatim>\<open>set\<close> and \<^verbatim>\<open>delete\<close> calls: each call acts on the
  state the previous one left; a call that raises leaves its state to the next call.
\<close>

datatype operation =
    Create string Value bool
  | Set string RelaxedValue
  | Delete string

fun apply_operation ::
  "(Value option \<Rightarrow> RelaxedValue \<Rightarrow> Value option) \<Rightarrow> (Value option \<Rightarrow> 'b) \<Rightarrow> ('b \<Rightarrow> Value option) \<Rightarrow>
   (string \<Rightarrow> string \<Rightarrow> bool) \<Rightarrow> 'b SQLiteStorage \<Rightarrow> operation \<Rightarrow> 'b SQLiteStorage" where
  "apply_operation convert serialize deserialize fnmatchcase st (Create name v mut) =
     snd (Repository_create convert serialize deserialize st name v mut)"
| "apply_operation convert serialize deserialize fnmatchcase st (Set name v) =
     snd (Repository_set convert serialize deserialize st name v)"
| "apply_operation convert serialize deserialize fnmatchcase st (Delete wildcard) =
     snd (Repository_delete fnmatchcase st wildcard)"

definition run ::
  "(Value option \<Rightarrow> RelaxedValue \<Rightarrow> Value option) \<Rightarrow> (Value option \<Rightarrow> 'b) \<Rightarrow> ('b \<Rightarrow> Value option) \<Rightarrow>
   (string \<Rightarrow> string \<Rightarrow> bool) \<Rightarrow> 'b SQLiteStorage \<Rightarrow> operation list \<Rightarrow> 'b SQLiteStorage" where
  "run convert serialize deserialize fnmatchcase st ops =
     foldl (apply_operation convert serialize deserialize fnmatchcase) st ops"

text \<open>
  A repository in memory holding a mutable one-element bit array \<^verbatim>\<open>foo\<close> and an immutable
  string \<^verbatim>\<open>bar\<close>, on an engine that executes every statement.
\<close>

definition demo :: "Value option SQLiteStorage" where
  "demo = \<lparr>loc = '':memory:'', database = InMemory,
           register = [(''foo'', True, Some (Bit [True])), (''bar'', False, Some (String ''x''))],
           faults = []\<rparr>"

text \<open>
  The repository of the doctest of \<^verbatim>\<open>Repository.delete\<close>, its rows in the order of their
  insertion.
\<close>

definition sample :: "Value option SQLiteStorage" where
  "sample = \<lparr>loc = '':memory:'', database = InMemory,
             register = [(''zoo.bar'', True, Some Empty), (''foo.baz'', True, Some Empty),
                         (''foo.bar'', False, Some (Bit [True]))],
             faults = []\<rparr>"

text \<open>
  The same repository on an engine that raises \<^verbatim>\<open>sqlite3.OperationalError\<close> on the next
  statement (a database locked for longer than the timeout of the connection, say).
\<close>

definition faulty :: "Value option SQLiteStorage" where
  "faulty = demo\<lparr>faults := [ExecuteRaises OperationalError]\<rparr>"

section \<open>Properties\<close>

subsection \<open>The storage on an engine that executes every statement\<close>

lemma connection_healthy:
  "faults st = [] \<Longrightarrow> Connection_execute st w c = (Inr (), st\<lparr>register := w (register st)\<rparr>)"
  by (simp add: Connection_execute_def)

lemma execute_healthy:
  "faults st = [] \<Longrightarrow> SQLiteStorage_execute st w c = (Inr (), st\<lparr>register := w (register st)\<rparr>)"
  by (simp add: SQLiteStorage_execute_def Connection_execute_def connection_healthy)

lemma get_healthy:
  "faults st = [] \<Longrightarrow>
   SQLiteStorage_get d st n =
     (Inr (map_option (\<lambda>(_, m, v). \<lparr>value' = d v, mutable = m\<rparr>) (find (\<lambda>r. fst r = n) (register st))), st)"
  by (simp add: SQLiteStorage_get_def execute_healthy split: option.splits)

lemma get_healthy_cases:
  "faults st = [] \<Longrightarrow> fst (Repository_get d st n) = r \<Longrightarrow> SQLiteStorage_get d st n = (r, st)"
  by (simp add: Repository_get_def get_healthy)

lemma set_healthy:
  "faults st = [] \<Longrightarrow>
   SQLiteStorage_set s st n e =
     (Inr (), st\<lparr>register := filter (\<lambda>r. fst r \<noteq> n) (register st) @ [(n, mutable e, s (value' e))]\<rparr>)"
  by (simp add: SQLiteStorage_set_def execute_healthy)

lemma find_after_set:
  "find (\<lambda>r. fst r = k) (filter (\<lambda>r. fst r \<noteq> n) rows @ [(n, m, b)]) =
     (if k = n then Some (n, m, b) else find (\<lambda>r. fst r = k) rows)"
  by (induction rows) auto

lemma get_after_set:
  "faults st = [] \<Longrightarrow>
   fst (SQLiteStorage_get d (snd (SQLiteStorage_set s st n e)) k) =
     (if k = n then Inr (Some \<lparr>value' = d (s (value' e)), mutable = mutable e\<rparr>)
      else fst (SQLiteStorage_get d st k))"
  by (simp add: set_healthy get_healthy find_after_set)

lemma get_names_healthy:
  "faults st = [] \<Longrightarrow> SQLiteStorage_get_names st = (Inr (sort (map fst (register st))), st)"
  by (simp add: SQLiteStorage_get_names_def execute_healthy)

lemma get_None_iff:
  "faults st = [] \<Longrightarrow> fst (SQLiteStorage_get d st n) = Inr None \<longleftrightarrow> n \<notin> fst ` set (register st)"
  by (auto simp: get_healthy find_None_iff image_iff split: prod.splits)

lemma foldl_delete:
  "foldl (\<lambda>rs x. filter (\<lambda>r. fst r \<noteq> x) rs) rows names = filter (\<lambda>r. fst r \<notin> set names) rows"
  by (induction names arbitrary: rows) (auto intro: filter_cong)

lemma find_filter_names:
  "find (\<lambda>r. fst r = n) (filter (\<lambda>r. \<not> P (fst r)) rows) =
     (if P n then None else find (\<lambda>r. fst r = n) rows)"
  by (induction rows) auto

lemma names_filter:
  "sort (map fst (filter (\<lambda>r. \<not> P (fst r)) rows)) = filter (\<lambda>n. \<not> P n) (sort (map fst rows))"
proof -
  have "map fst (filter (\<lambda>r. \<not> P (fst r)) rows) = filter (\<lambda>n. \<not> P n) (map fst rows)"
    by (induction rows) auto
  then show ?thesis by (simp add: filter_sort)
qed

subsection \<open>The repository on an engine that executes every statement\<close>

lemma Repository_set_healthy:
  "faults st = [] \<Longrightarrow>
   Repository_set c s d st name v =
     (case fst (SQLiteStorage_get d st name) of
        Inl ex \<Rightarrow> (Inl ex, st)
      | Inr None \<Rightarrow> (Inl (MissingRegisterError name), st)
      | Inr (Some e) \<Rightarrow>
          (case c (value' e) v of
             None \<Rightarrow> (Inl ConflictError, st)
           | Some cv \<Rightarrow> SQLiteStorage_set s st name \<lparr>value' = Some cv, mutable = mutable e\<rparr>))"
  by (simp add: Repository_set_def get_healthy split: option.splits)

lemma Repository_create_healthy:
  "faults st = [] \<Longrightarrow>
   Repository_create c s d st name v mut =
     (case fst (SQLiteStorage_get d st name) of
        Inl ex \<Rightarrow> (Inl ex, st)
      | Inr None \<Rightarrow> SQLiteStorage_set s st name \<lparr>value' = Some v, mutable = mut\<rparr>
      | Inr (Some e) \<Rightarrow>
          (case c (value' e) (Strict v) of
             None \<Rightarrow> (Inl ConflictError, st)
           | Some cv \<Rightarrow> SQLiteStorage_set s st name \<lparr>value' = Some cv, mutable = mutable e\<rparr>))"
  by (simp add: Repository_create_def Repository_set_def get_healthy set_healthy split: option.splits)

lemma Repository_access_healthy:
  "faults st = [] \<Longrightarrow>
   snd (Repository_access c s d st name v) =
     (case fst (SQLiteStorage_get d st name) of
        Inl ex \<Rightarrow> st
      | Inr None \<Rightarrow> st
      | Inr (Some e) \<Rightarrow>
          (case c (value' e) (Strict v) of
             None \<Rightarrow> st
           | Some cv \<Rightarrow>
               if mutable e then snd (SQLiteStorage_set s st name \<lparr>value' = Some cv, mutable = mutable e\<rparr>)
               else st))"
  by (simp add: Repository_access_def get_healthy set_healthy split: option.splits bool.splits)

lemma Repository_delete_healthy:
  assumes "faults st = []"
  shows "Repository_delete f st w =
           (Inr (), st\<lparr>register := filter (\<lambda>r. \<not> f (fst r) w) (register st)\<rparr>)"
proof -
  have "filter (\<lambda>r. fst r \<notin> set (filter (\<lambda>n. f n w) (sort (map fst (register st))))) (register st) =
        filter (\<lambda>r. \<not> f (fst r) w) (register st)"
    by (rule filter_cong) auto
  with assms show ?thesis
    by (simp add: Repository_delete_def Repository_keys_def get_names_healthy
        SQLiteStorage_delete_def connection_healthy foldl_delete)
qed

lemma get_after_delete:
  "faults st = [] \<Longrightarrow>
   fst (SQLiteStorage_get d (snd (Repository_delete f st w)) n) =
     (if f n w then Inr None else fst (SQLiteStorage_get d st n))"
  by (simp add: Repository_delete_healthy get_healthy find_filter_names [where P = "\<lambda>n. f n w"])

subsection \<open>Access to an existing register\<close>

text \<open>
  C1: for an existing register with stored entry \<open>e\<close>, \<^verbatim>\<open>Repository.access\<close> writes the
  converted entry (the state after the call is the state \<^verbatim>\<open>SQLiteStorage.set\<close> leaves, and
  \<^verbatim>\<open>get\<close> then finds what the codec reads back) and returns it when \<open>e\<close> is mutable and the
  conversion of the candidate succeeds; when \<open>e\<close> is immutable or the conversion fails,
  it returns \<open>e\<close> and the state of the storage is the state before the call.
\<close>

theorem access_existing:
  assumes "faults st = []"
    and "fst (Repository_get deserialize st name) = Inr (Some e)"
  shows "(mutable e \<and> convert (value' e) (Strict candidate) = Some c \<longrightarrow>
            Repository_access convert serialize deserialize st name candidate =
              (Inr \<lparr>value' = Some c, mutable = True\<rparr>,
               snd (SQLiteStorage_set serialize st name \<lparr>value' = Some c, mutable = True\<rparr>))
            \<and> fst (Repository_get deserialize
                     (snd (Repository_access convert serialize deserialize st name candidate)) name) =
                Inr (Some \<lparr>value' = deserialize (serialize (Some c)), mutable = True\<rparr>))
       \<and> (\<not> mutable e \<or> convert (value' e) (Strict candidate) = None \<longrightarrow>
            Repository_access convert serialize deserialize st name candidate = (Inr e, st))"
proof -
  from assms have g: "SQLiteStorage_get deserialize st name = (Inr (Some e), st)"
    by (rule get_healthy_cases)
  have w: "mutable e \<Longrightarrow> convert (value' e) (Strict candidate) = Some c \<Longrightarrow>
      Repository_access convert serialize deserialize st name candidate =
        (Inr \<lparr>value' = Some c, mutable = True\<rparr>,
         snd (SQLiteStorage_set serialize st name \<lparr>value' = Some c, mutable = True\<rparr>))"
    using assms(1) by (simp add: Repository_access_def g set_healthy)
  have r: "\<not> mutable e \<or> convert (value' e) (Strict candidate) = None \<Longrightarrow>
      Repository_access convert serialize deserialize st name candidate = (Inr e, st)"
    by (auto simp: Repository_access_def g split: bool.splits option.splits)
  show ?thesis
    using w r assms(1) by (simp add: Repository_get_def get_after_set)
qed

theorem access_existing_witness:
  "faults demo = []
   \<and> fst (Repository_get deserialize_model demo ''foo'') = Inr (Some \<lparr>value' = Some (Bit [True]), mutable = True\<rparr>)
   \<and> convert_model (Some (Bit [True])) (Strict (Bit [False])) = Some (Bit [False])
   \<and> Repository_access convert_model serialize_model deserialize_model demo ''foo'' (Bit [False]) =
       (Inr \<lparr>value' = Some (Bit [False]), mutable = True\<rparr>,
        snd (SQLiteStorage_set serialize_model demo ''foo'' \<lparr>value' = Some (Bit [False]), mutable = True\<rparr>))
   \<and> convert_model (Some (Bit [True])) (Strict (Bit [True, False])) = None
   \<and> Repository_access convert_model serialize_model deserialize_model demo ''foo'' (Bit [True, False]) =
       (Inr \<lparr>value' = Some (Bit [True]), mutable = True\<rparr>, demo)
   \<and> fst (Repository_get deserialize_model demo ''bar'') = Inr (Some \<lparr>value' = Some (String ''x''), mutable = False\<rparr>)
   \<and> convert_model (Some (String ''x'')) (Strict (String ''y'')) = Some (String ''y'')
   \<and> Repository_access convert_model serialize_model deserialize_model demo ''bar'' (String ''y'') =
       (Inr \<lparr>value' = Some (String ''x''), mutable = False\<rparr>, demo)"
proof -
  have h1: "faults demo = []" by (simp add: demo_def)
  have foo: "fst (Repository_get deserialize_model demo ''foo'') = Inr (Some \<lparr>value' = Some (Bit [True]), mutable = True\<rparr>)"
    by (simp add: demo_def Repository_get_def SQLiteStorage_get_def SQLiteStorage_execute_def Connection_execute_def deserialize_model_def)
  have bar: "fst (Repository_get deserialize_model demo ''bar'') = Inr (Some \<lparr>value' = Some (String ''x''), mutable = False\<rparr>)"
    by (simp add: demo_def Repository_get_def SQLiteStorage_get_def SQLiteStorage_execute_def Connection_execute_def deserialize_model_def)
  have c1: "convert_model (Some (Bit [True])) (Strict (Bit [False])) = Some (Bit [False])" by simp
  have c2: "convert_model (Some (Bit [True])) (Strict (Bit [True, False])) = None" by simp
  have c3: "convert_model (Some (String ''x'')) (Strict (String ''y'')) = Some (String ''y'')" by simp
  from access_existing [OF h1 foo, of convert_model "Bit [False]" "Bit [False]" serialize_model]
       access_existing [OF h1 foo, of convert_model "Bit [True, False]" "Bit [False]" serialize_model]
       access_existing [OF h1 bar, of convert_model "String ''y''" "String ''y''" serialize_model]
       h1 foo bar c1 c2 c3
  show ?thesis by simp
qed

subsection \<open>The failures of set\<close>

text \<open>
  C2: \<^verbatim>\<open>Repository.set\<close> raises \<^verbatim>\<open>MissingRegisterError\<close> exactly when no register of that
  name exists and \<^verbatim>\<open>ConflictError\<close> exactly when the register exists and the conversion
  of the candidate fails; these are its only failures on an engine that executes every
  statement, and in both the state of the storage is the state before the call.
\<close>

theorem set_errors:
  assumes "faults st = []"
  shows "(fst (Repository_set convert serialize deserialize st name v) = Inl (MissingRegisterError name)
            \<longleftrightarrow> fst (Repository_get deserialize st name) = Inr None)
       \<and> (fst (Repository_set convert serialize deserialize st name v) = Inl ConflictError
            \<longleftrightarrow> (\<exists>e. fst (Repository_get deserialize st name) = Inr (Some e) \<and> convert (value' e) v = None))
       \<and> (\<forall>ex. fst (Repository_set convert serialize deserialize st name v) = Inl ex \<longrightarrow>
            (ex = MissingRegisterError name \<or> ex = ConflictError)
            \<and> snd (Repository_set convert serialize deserialize st name v) = st)"
  using assms
  by (auto simp: Repository_set_def Repository_get_def get_healthy set_healthy split: option.splits)

theorem set_errors_witness:
  "faults demo = []
   \<and> fst (Repository_get deserialize_model demo ''baz'') = Inr None
   \<and> Repository_set convert_model serialize_model deserialize_model demo ''baz'' (Scalar (NBool True)) =
       (Inl (MissingRegisterError ''baz''), demo)
   \<and> fst (Repository_get deserialize_model demo ''foo'') = Inr (Some \<lparr>value' = Some (Bit [True]), mutable = True\<rparr>)
   \<and> convert_model (Some (Bit [True])) (Sequence [NBool True, NBool False]) = None
   \<and> Repository_set convert_model serialize_model deserialize_model demo ''foo'' (Sequence [NBool True, NBool False]) =
       (Inl ConflictError, demo)"
proof -
  have h1: "faults demo = []" by (simp add: demo_def)
  have baz: "fst (Repository_get deserialize_model demo ''baz'') = Inr None"
    by (simp add: demo_def Repository_get_def SQLiteStorage_get_def SQLiteStorage_execute_def Connection_execute_def)
  have foo: "fst (Repository_get deserialize_model demo ''foo'') = Inr (Some \<lparr>value' = Some (Bit [True]), mutable = True\<rparr>)"
    by (simp add: demo_def Repository_get_def SQLiteStorage_get_def SQLiteStorage_execute_def Connection_execute_def deserialize_model_def)
  have c: "convert_model (Some (Bit [True])) (Sequence [NBool True, NBool False]) = None" by simp
  note a = set_errors [OF h1, of convert_model serialize_model deserialize_model "''baz''" "Scalar (NBool True)"]
  note b = set_errors [OF h1, of convert_model serialize_model deserialize_model "''foo''" "Sequence [NBool True, NBool False]"]
  from a baz have a1: "fst (Repository_set convert_model serialize_model deserialize_model demo ''baz'' (Scalar (NBool True))) = Inl (MissingRegisterError ''baz'')"
    by blast
  with a have a2: "snd (Repository_set convert_model serialize_model deserialize_model demo ''baz'' (Scalar (NBool True))) = demo"
    by blast
  from b foo c have b1: "fst (Repository_set convert_model serialize_model deserialize_model demo ''foo'' (Sequence [NBool True, NBool False])) = Inl ConflictError"
    by auto
  with b have b2: "snd (Repository_set convert_model serialize_model deserialize_model demo ''foo'' (Sequence [NBool True, NBool False])) = demo"
    by blast
  from a1 a2 b1 b2 h1 baz foo c show ?thesis
    by (simp add: prod_eq_iff)
qed

subsection \<open>Access to a register that does not exist\<close>

text \<open>
  C3: for a name with no stored register and any candidate, \<^verbatim>\<open>Repository.access\<close> returns
  the entry with the empty value and the mutable flag false, and the state of the storage
  after the call is the state before it; in particular the count of registers is the same.
\<close>

theorem access_missing:
  assumes "faults st = []"
    and "fst (Repository_get deserialize st name) = Inr None"
  shows "Repository_access convert serialize deserialize st name candidate =
           (Inr \<lparr>value' = Some Empty, mutable = False\<rparr>, st)
         \<and> Repository_len (snd (Repository_access convert serialize deserialize st name candidate)) =
             Repository_len st"
proof -
  from assms have "SQLiteStorage_get deserialize st name = (Inr None, st)"
    by (simp add: Repository_get_def get_healthy)
  then show ?thesis
    by (simp add: Repository_access_def)
qed

theorem access_missing_witness:
  "faults demo = []
   \<and> fst (Repository_get deserialize_model demo ''baz'') = Inr None
   \<and> Repository_access convert_model serialize_model deserialize_model demo ''baz'' (Bit [False]) =
       (Inr \<lparr>value' = Some Empty, mutable = False\<rparr>, demo)
   \<and> Repository_len (snd (Repository_access convert_model serialize_model deserialize_model demo ''baz'' (Bit [False]))) =
       Repository_len demo"
proof -
  have h1: "faults demo = []" by (simp add: demo_def)
  have h2: "fst (Repository_get deserialize_model demo ''baz'') = Inr None"
    by (simp add: demo_def Repository_get_def SQLiteStorage_get_def SQLiteStorage_execute_def Connection_execute_def)
  from access_missing [OF h1 h2, of convert_model serialize_model "Bit [False]"] h1 h2
  show ?thesis by simp
qed

subsection \<open>The mutable flag is fixed at creation\<close>

text \<open>
  C4: a register that exists before a call of \<^verbatim>\<open>Repository.set\<close>, \<^verbatim>\<open>Repository.create\<close> or
  \<^verbatim>\<open>Repository.access\<close> (on its own name or on any other, with any arguments, whether the
  call writes or not) exists after the call with the mutable flag it had before; so a
  write to an existing register keeps its flag, and the \<^verbatim>\<open>mutable\<close> argument of \<^verbatim>\<open>create\<close>
  has no effect on a register that exists. A register that \<^verbatim>\<open>Repository.delete\<close> leaves in
  place keeps its flag as well.
\<close>

theorem mutability_preserved:
  assumes "faults st = []"
    and "fst (Repository_get deserialize st n) = Inr (Some e0)"
  shows "(\<exists>e1. fst (Repository_get deserialize
                  (snd (Repository_set convert serialize deserialize st name rv)) n) = Inr (Some e1)
              \<and> mutable e1 = mutable e0)
       \<and> (\<exists>e1. fst (Repository_get deserialize
                  (snd (Repository_create convert serialize deserialize st name v mut)) n) = Inr (Some e1)
              \<and> mutable e1 = mutable e0)
       \<and> (\<exists>e1. fst (Repository_get deserialize
                  (snd (Repository_access convert serialize deserialize st name v)) n) = Inr (Some e1)
              \<and> mutable e1 = mutable e0)
       \<and> (\<forall>e1. fst (Repository_get deserialize
                  (snd (Repository_delete fnmatchcase st wildcard)) n) = Inr (Some e1)
              \<longrightarrow> mutable e1 = mutable e0)"
proof -
  from assms have g: "fst (SQLiteStorage_get deserialize st n) = Inr (Some e0)"
    by (simp add: Repository_get_def)
  have s: "\<exists>e1. fst (SQLiteStorage_get deserialize
                  (snd (Repository_set convert serialize deserialize st name rv)) n) = Inr (Some e1)
              \<and> mutable e1 = mutable e0"
    using assms(1) g
    by (cases "n = name")
       (auto simp: Repository_set_healthy get_after_set split: option.splits sum.splits)
  have c: "\<exists>e1. fst (SQLiteStorage_get deserialize
                  (snd (Repository_create convert serialize deserialize st name v mut)) n) = Inr (Some e1)
              \<and> mutable e1 = mutable e0"
    using assms(1) g
    by (cases "n = name")
       (auto simp: Repository_create_healthy get_after_set split: option.splits sum.splits)
  have a: "\<exists>e1. fst (SQLiteStorage_get deserialize
                  (snd (Repository_access convert serialize deserialize st name v)) n) = Inr (Some e1)
              \<and> mutable e1 = mutable e0"
    using assms(1) g
    by (cases "n = name")
       (auto simp: Repository_access_healthy get_after_set split: option.splits sum.splits)
  have d: "\<forall>e1. fst (SQLiteStorage_get deserialize
                  (snd (Repository_delete fnmatchcase st wildcard)) n) = Inr (Some e1)
              \<longrightarrow> mutable e1 = mutable e0"
    using assms(1) g by (simp add: get_after_delete)
  from s c a d show ?thesis by (simp add: Repository_get_def)
qed

theorem mutability_preserved_witness:
  "faults demo = []
   \<and> fst (Repository_get deserialize_model demo ''foo'') =
       Inr (Some \<lparr>value' = Some (Bit [True]), mutable = True\<rparr>)
   \<and> fst (Repository_get deserialize_model
            (snd (Repository_set convert_model serialize_model deserialize_model demo ''foo'' (Scalar (NBool False)))) ''foo'') =
       Inr (Some \<lparr>value' = Some (Bit [False]), mutable = True\<rparr>)
   \<and> fst (Repository_get deserialize_model
            (snd (Repository_create convert_model serialize_model deserialize_model demo ''foo'' (Bit [False]) False)) ''foo'') =
       Inr (Some \<lparr>value' = Some (Bit [False]), mutable = True\<rparr>)
   \<and> fst (Repository_get deserialize_model
            (snd (Repository_access convert_model serialize_model deserialize_model demo ''foo'' (Bit [False]))) ''foo'') =
       Inr (Some \<lparr>value' = Some (Bit [False]), mutable = True\<rparr>)
   \<and> fst (Repository_get deserialize_model
            (snd (Repository_delete fnmatchcase_model demo ''b*'')) ''foo'') =
       Inr (Some \<lparr>value' = Some (Bit [True]), mutable = True\<rparr>)"
proof -
  have h1: "faults demo = []" by (simp add: demo_def)
  have h2: "fst (Repository_get deserialize_model demo ''foo'') =
      Inr (Some \<lparr>value' = Some (Bit [True]), mutable = True\<rparr>)"
    by (simp add: demo_def Repository_get_def SQLiteStorage_get_def SQLiteStorage_execute_def Connection_execute_def
        deserialize_model_def)
  have g: "fst (SQLiteStorage_get deserialize_model demo ''foo'') =
      Inr (Some \<lparr>value' = Some (Bit [True]), mutable = True\<rparr>)"
    using h2 by (simp add: Repository_get_def)
  have m: "\<not> fnmatchcase_model ''foo'' ''b*''" by code_simp
  from mutability_preserved [where st = demo and deserialize = deserialize_model and n = "''foo''"
        and name = "''foo''" and convert = convert_model and serialize = serialize_model
        and rv = "Scalar (NBool False)" and v = "Bit [False]" and mut = False
        and fnmatchcase = fnmatchcase_model and wildcard = "''b*''", OF h1 h2] h1 h2 g m
  show ?thesis
    by (simp add: Repository_get_def Repository_set_healthy Repository_create_healthy
        Repository_access_healthy get_after_set get_after_delete deserialize_model_def
        serialize_model_def)
qed

subsection \<open>The exceptions of access\<close>

text \<open>
  C5 fails on the code: \<^verbatim>\<open>Repository.access\<close> catches nothing, so the \<^verbatim>\<open>StorageError\<close> that
  \<^verbatim>\<open>SQLiteStorage._execute\<close> raises reaches the caller. On an engine that raises
  \<^verbatim>\<open>sqlite3.OperationalError\<close> on the next statement, \<^verbatim>\<open>access\<close> of the existing register
  \<^verbatim>\<open>foo\<close> with the empty candidate raises \<^verbatim>\<open>StorageError\<close> and returns no entry.
\<close>

theorem access_raises_storage_error:
  "fst (Repository_access convert_model serialize_model deserialize_model faulty ''foo'' Empty) =
     Inl StorageError"
  by (simp add: faulty_def demo_def Repository_access_def SQLiteStorage_get_def
      SQLiteStorage_execute_def Connection_execute_def)

subsection \<open>Create, then get\<close>

text \<open>
  C6: for a name with no stored register, \<^verbatim>\<open>Repository.create(name, value, mutable)\<close>
  succeeds and \<^verbatim>\<open>Repository.get(name)\<close> right after it returns the entry of that value and
  that flag, for every codec that reads back the value it has written.
\<close>

theorem create_then_get:
  assumes "faults st = []"
    and "fst (Repository_get deserialize st name) = Inr None"
    and "deserialize (serialize (Some v)) = Some v"
  shows "fst (Repository_create convert serialize deserialize st name v mut) = Inr ()
       \<and> fst (Repository_get deserialize
                (snd (Repository_create convert serialize deserialize st name v mut)) name) =
           Inr (Some \<lparr>value' = Some v, mutable = mut\<rparr>)"
proof -
  from assms(2) have g: "fst (SQLiteStorage_get deserialize st name) = Inr None"
    by (simp add: Repository_get_def)
  with assms(1) have c: "Repository_create convert serialize deserialize st name v mut =
      SQLiteStorage_set serialize st name \<lparr>value' = Some v, mutable = mut\<rparr>"
    by (simp add: Repository_create_healthy)
  from assms(1) have "fst (SQLiteStorage_set serialize st name \<lparr>value' = Some v, mutable = mut\<rparr>) = Inr ()"
    by (simp add: set_healthy)
  with c assms(1,3) show ?thesis
    by (simp add: Repository_get_def get_after_set)
qed

theorem create_then_get_witness:
  "faults demo = []
   \<and> fst (Repository_get deserialize_model demo ''baz'') = Inr None
   \<and> deserialize_model (serialize_model (Some (Bit [True, False]))) = Some (Bit [True, False])
   \<and> fst (Repository_create convert_model serialize_model deserialize_model demo ''baz'' (Bit [True, False]) False) = Inr ()
   \<and> fst (Repository_get deserialize_model
            (snd (Repository_create convert_model serialize_model deserialize_model demo ''baz'' (Bit [True, False]) False)) ''baz'') =
       Inr (Some \<lparr>value' = Some (Bit [True, False]), mutable = False\<rparr>)"
proof -
  have h1: "faults demo = []" by (simp add: demo_def)
  have h2: "fst (Repository_get deserialize_model demo ''baz'') = Inr None"
    by (simp add: demo_def Repository_get_def SQLiteStorage_get_def SQLiteStorage_execute_def Connection_execute_def)
  have h3: "deserialize_model (serialize_model (Some (Bit [True, False]))) = Some (Bit [True, False])"
    by (simp add: deserialize_model_def serialize_model_def)
  from create_then_get [where st = demo and deserialize = deserialize_model and name = "''baz''"
        and serialize = serialize_model and v = "Bit [True, False]" and convert = convert_model
        and mut = False, OF h1 h2 h3] h1 h2 h3
  show ?thesis by simp
qed

subsection \<open>Deletion by wildcard\<close>

text \<open>
  C7: \<^verbatim>\<open>Repository.delete(wildcard)\<close> succeeds; the names listed after it are the names
  listed before it that do not match the wildcard; a name that matches has no register
  after the call, and \<^verbatim>\<open>get\<close> of a name that does not match returns what it returned
  before; when no stored name matches, the state of the storage is the state before the
  call. The matching is that of \<^verbatim>\<open>fnmatchcase\<close>, whatever it is.
\<close>

theorem delete_wildcard:
  assumes "faults st = []"
  shows "fst (Repository_delete fnmatchcase st wildcard) = Inr ()
       \<and> (\<forall>ks. fst (Repository_keys st) = Inr ks \<longrightarrow>
            fst (Repository_keys (snd (Repository_delete fnmatchcase st wildcard))) =
              Inr (filter (\<lambda>n. \<not> fnmatchcase n wildcard) ks))
       \<and> (\<forall>n. fnmatchcase n wildcard \<longrightarrow>
            fst (Repository_get deserialize (snd (Repository_delete fnmatchcase st wildcard)) n) = Inr None)
       \<and> (\<forall>n. \<not> fnmatchcase n wildcard \<longrightarrow>
            fst (Repository_get deserialize (snd (Repository_delete fnmatchcase st wildcard)) n) =
              fst (Repository_get deserialize st n))
       \<and> ((\<forall>ks. fst (Repository_keys st) = Inr ks \<longrightarrow> (\<forall>n \<in> set ks. \<not> fnmatchcase n wildcard)) \<longrightarrow>
            Repository_delete fnmatchcase st wildcard = (Inr (), st))"
proof -
  let ?st' = "st\<lparr>register := filter (\<lambda>r. \<not> fnmatchcase (fst r) wildcard) (register st)\<rparr>"
  have d: "Repository_delete fnmatchcase st wildcard = (Inr (), ?st')"
    using assms by (rule Repository_delete_healthy)
  have f: "faults ?st' = []" using assms by simp
  have k: "fst (Repository_keys ?st') =
      Inr (filter (\<lambda>n. \<not> fnmatchcase n wildcard) (sort (map fst (register st))))"
    using f by (simp add: Repository_keys_def get_names_healthy
        names_filter [where P = "\<lambda>n. fnmatchcase n wildcard"])
  have k0: "fst (Repository_keys st) = Inr (sort (map fst (register st)))"
    using assms by (simp add: Repository_keys_def get_names_healthy)
  have g: "\<And>n. fst (Repository_get deserialize ?st' n) =
      (if fnmatchcase n wildcard then Inr None else fst (Repository_get deserialize st n))"
    using f assms by (simp add: Repository_get_def get_healthy
        find_filter_names [where P = "\<lambda>n. fnmatchcase n wildcard"])
  have noop: "(\<forall>n \<in> set (sort (map fst (register st))). \<not> fnmatchcase n wildcard) \<Longrightarrow> ?st' = st"
  proof -
    assume a: "\<forall>n \<in> set (sort (map fst (register st))). \<not> fnmatchcase n wildcard"
    then have "filter (\<lambda>r. \<not> fnmatchcase (fst r) wildcard) (register st) = register st"
      by (auto simp: filter_id_conv)
    then show "?st' = st" by simp
  qed
  show ?thesis
    using k k0 g noop by (simp add: d)
qed

theorem delete_wildcard_witness:
  "faults sample = []
   \<and> fst (Repository_keys sample) = Inr [''foo.bar'', ''foo.baz'', ''zoo.bar'']
   \<and> fst (Repository_delete fnmatchcase_model sample ''foo.*'') = Inr ()
   \<and> fst (Repository_keys (snd (Repository_delete fnmatchcase_model sample ''foo.*''))) = Inr [''zoo.bar'']
   \<and> fnmatchcase_model ''foo.bar'' ''foo.*''
   \<and> fst (Repository_get deserialize_model (snd (Repository_delete fnmatchcase_model sample ''foo.*'')) ''foo.bar'') = Inr None
   \<and> \<not> fnmatchcase_model ''zoo.bar'' ''foo.*''
   \<and> fst (Repository_get deserialize_model (snd (Repository_delete fnmatchcase_model sample ''foo.*'')) ''zoo.bar'') =
       Inr (Some \<lparr>value' = Some Empty, mutable = True\<rparr>)
   \<and> Repository_delete fnmatchcase_model sample ''[!a-z]oo.ba?'' = (Inr (), sample)"
proof -
  have h: "faults sample = []" by (simp add: sample_def)
  have k: "fst (Repository_keys sample) = Inr [''foo.bar'', ''foo.baz'', ''zoo.bar'']"
    by code_simp
  have m: "fnmatchcase_model ''foo.bar'' ''foo.*''" "fnmatchcase_model ''foo.baz'' ''foo.*''"
    "\<not> fnmatchcase_model ''zoo.bar'' ''foo.*''"
    by code_simp+
  have q: "\<not> fnmatchcase_model ''foo.bar'' ''[!a-z]oo.ba?''" "\<not> fnmatchcase_model ''foo.baz'' ''[!a-z]oo.ba?''"
    "\<not> fnmatchcase_model ''zoo.bar'' ''[!a-z]oo.ba?''"
    by code_simp+
  have z: "fst (Repository_get deserialize_model sample ''zoo.bar'') =
      Inr (Some \<lparr>value' = Some Empty, mutable = True\<rparr>)"
    by (simp add: sample_def Repository_get_def SQLiteStorage_get_def SQLiteStorage_execute_def Connection_execute_def
        deserialize_model_def)
  note a = delete_wildcard [OF h, where fnmatchcase = fnmatchcase_model and wildcard = "''foo.*''"
      and deserialize = deserialize_model]
  note b = delete_wildcard [OF h, where fnmatchcase = fnmatchcase_model and wildcard = "''[!a-z]oo.ba?''"
      and deserialize = deserialize_model]
  from a k m have a1: "fst (Repository_keys (snd (Repository_delete fnmatchcase_model sample ''foo.*''))) = Inr [''zoo.bar'']"
    by simp
  from a m have a2: "fst (Repository_get deserialize_model (snd (Repository_delete fnmatchcase_model sample ''foo.*'')) ''foo.bar'') = Inr None"
    by blast
  from a m z have a3: "fst (Repository_get deserialize_model (snd (Repository_delete fnmatchcase_model sample ''foo.*'')) ''zoo.bar'') =
       Inr (Some \<lparr>value' = Some Empty, mutable = True\<rparr>)"
    by simp
  from b k q have b1: "Repository_delete fnmatchcase_model sample ''[!a-z]oo.ba?'' = (Inr (), sample)"
    by simp
  from a have a0: "fst (Repository_delete fnmatchcase_model sample ''foo.*'') = Inr ()" by blast
  from h k a0 a1 a2 a3 b1 m show ?thesis by simp
qed

subsection \<open>The location and the persistence flag\<close>







text \<open>
  Outside that: for the token in another letter case the connection opens the file of
  that name while \<^verbatim>\<open>persistent\<close> is false (it lower-cases the location, \<^verbatim>\<open>sqlite3.connect\<close>
  does not), and a location of white space alone is stripped to the empty name, for which
  the connection opens a temporary database while \<^verbatim>\<open>persistent\<close> is true.
\<close>

lemma persistent_disagrees_with_connection:
  "SQLiteStorage_init '':MEMORY:'' (\<lambda>name. Some ([] :: (string \<times> bool \<times> Value option) list)) [] =
     Inr \<lparr>loc = '':MEMORY:'', database = File '':MEMORY:'', register = [], faults = []\<rparr>
   \<and> \<not> SQLiteStorage_persistent
         (\<lparr>loc = '':MEMORY:'', database = File '':MEMORY:'', register = [], faults = []\<rparr>
            :: Value option SQLiteStorage)
   \<and> SQLiteStorage_init '' '' (\<lambda>name. Some ([] :: (string \<times> bool \<times> Value option) list)) [] =
     Inr \<lparr>loc = [], database = Temporary, register = [], faults = []\<rparr>
   \<and> SQLiteStorage_persistent
         (\<lparr>loc = [], database = Temporary, register = [], faults = []\<rparr>
            :: Value option SQLiteStorage)"
proof -
  have a: "SQLiteStorage_init '':MEMORY:'' (\<lambda>name. Some ([] :: (string \<times> bool \<times> Value option) list)) [] =
     Inr \<lparr>loc = '':MEMORY:'', database = File '':MEMORY:'', register = [], faults = []\<rparr>"
    by (simp add: SQLiteStorage_init_def Let_def connect_def SQLiteStorage_execute_def Connection_execute_def
        SQLiteStorage_get_names_def strip_def isspace_def)
  have b: "\<not> SQLiteStorage_persistent
         (\<lparr>loc = '':MEMORY:'', database = File '':MEMORY:'', register = [], faults = []\<rparr>
            :: Value option SQLiteStorage)"
    by code_simp
  have c: "SQLiteStorage_init '' '' (\<lambda>name. Some ([] :: (string \<times> bool \<times> Value option) list)) [] =
     Inr \<lparr>loc = [], database = Temporary, register = [], faults = []\<rparr>"
    by (simp add: SQLiteStorage_init_def Let_def connect_def SQLiteStorage_execute_def Connection_execute_def
        SQLiteStorage_get_names_def strip_def isspace_def)
  have d: "SQLiteStorage_persistent
         (\<lparr>loc = [], database = Temporary, register = [], faults = []\<rparr>
            :: Value option SQLiteStorage)"
    by code_simp
  from a b c d show ?thesis by simp
qed

subsection \<open>The names in order\<close>

lemma SQLiteStorage_set_invariant:
  "faults st = [] \<Longrightarrow> distinct (map fst (register st)) \<Longrightarrow>
   faults (snd (SQLiteStorage_set s st n e)) = [] \<and>
   distinct (map fst (register (snd (SQLiteStorage_set s st n e))))"
  by (auto simp: set_healthy distinct_map_filter)

lemma apply_operation_invariant:
  assumes "faults st = []" and "distinct (map fst (register st))"
  shows "faults (apply_operation c s d f st x) = [] \<and>
         distinct (map fst (register (apply_operation c s d f st x)))"
proof (cases x)
  case (Create name v mut)
  with assms SQLiteStorage_set_invariant [OF assms] show ?thesis
    by (auto simp: Repository_create_healthy split: sum.splits option.splits)
next
  case (Set name v)
  with assms SQLiteStorage_set_invariant [OF assms] show ?thesis
    by (auto simp: Repository_set_healthy split: sum.splits option.splits)
next
  case (Delete w)
  with assms show ?thesis
    by (simp add: Repository_delete_healthy distinct_map_filter)
qed

lemma run_invariant:
  "faults st = [] \<Longrightarrow> distinct (map fst (register st)) \<Longrightarrow>
   faults (run c s d f st ops) = [] \<and> distinct (map fst (register (run c s d f st ops)))"
  unfolding run_def
  by (induction ops arbitrary: st) (simp_all add: apply_operation_invariant)

lemma stored_names:
  "faults st = [] \<Longrightarrow> {n. fst (Repository_get d st n) \<noteq> Inr None} = set (map fst (register st))"
  by (auto simp: Repository_get_def get_None_iff)

lemma keys_of_state:
  assumes "faults st = []" and "distinct (map fst (register st))"
  shows "Repository_keys st = (Inr (sorted_list_of_set {n. fst (Repository_get d st n) \<noteq> Inr None}), st)"
proof -
  have "sorted_list_of_set (set (map fst (register st))) = sort (remdups (map fst (register st)))"
    by (rule sorted_list_of_set_sort_remdups)
  also have "remdups (map fst (register st)) = map fst (register st)"
    using assms(2) by (rule distinct_remdups_id)
  finally have "sorted_list_of_set (set (map fst (register st))) = sort (map fst (register st))" .
  with assms(1) show ?thesis
    by (simp add: stored_names Repository_keys_def get_names_healthy del: set_map)
qed

text \<open>
  C9: after any sequence of \<^verbatim>\<open>create\<close>, \<^verbatim>\<open>set\<close> and \<^verbatim>\<open>delete\<close> calls on a repository whose
  table has one row per name (\<^verbatim>\<open>name\<close> is its primary key), \<^verbatim>\<open>Repository.keys()\<close> and the
  iteration return the same list: it is sorted in the lexicographic order of strings, has
  no repetition, and its elements are the names \<^verbatim>\<open>get\<close> finds in the state the sequence
  has left. So it is the sorted list of that set of names, whatever the order of their
  insertion.
\<close>

theorem keys_sorted:
  assumes "faults st = []" and "distinct (map fst (register st))"
  shows "\<exists>ks. Repository_keys (run convert serialize deserialize fnmatchcase st ops) =
                (Inr ks, run convert serialize deserialize fnmatchcase st ops)
            \<and> Repository_iter (run convert serialize deserialize fnmatchcase st ops) =
                (Inr ks, run convert serialize deserialize fnmatchcase st ops)
            \<and> sorted ks \<and> distinct ks
            \<and> set ks = {n. fst (Repository_get deserialize
                                  (run convert serialize deserialize fnmatchcase st ops) n) \<noteq> Inr None}
            \<and> ks = sorted_list_of_set {n. fst (Repository_get deserialize
                                  (run convert serialize deserialize fnmatchcase st ops) n) \<noteq> Inr None}"
proof -
  let ?st = "run convert serialize deserialize fnmatchcase st ops"
  let ?S = "{n. fst (Repository_get deserialize ?st n) \<noteq> Inr None}"
  from run_invariant [OF assms] have i: "faults ?st = []" "distinct (map fst (register ?st))"
    by blast+
  have fin: "finite ?S" using i(1) by (simp add: stored_names del: set_map)
  from keys_of_state [OF i] have k: "Repository_keys ?st = (Inr (sorted_list_of_set ?S), ?st)" .
  show ?thesis
    using k fin by (intro exI [of _ "sorted_list_of_set ?S"]) (simp add: Repository_iter_def)
qed

theorem keys_sorted_witness:
  "faults demo = []
   \<and> distinct (map fst (register demo))
   \<and> Repository_keys (run convert_model serialize_model deserialize_model fnmatchcase_model demo
        [Create ''b'' Empty True, Create ''a'' Empty False, Set ''foo'' (Scalar (NBool False)), Delete ''ba*'']) =
       (Inr [''a'', ''b'', ''foo''],
        run convert_model serialize_model deserialize_model fnmatchcase_model demo
        [Create ''b'' Empty True, Create ''a'' Empty False, Set ''foo'' (Scalar (NBool False)), Delete ''ba*''])
   \<and> Repository_iter (run convert_model serialize_model deserialize_model fnmatchcase_model demo
        [Create ''b'' Empty True, Create ''a'' Empty False, Set ''foo'' (Scalar (NBool False)), Delete ''ba*'']) =
       (Inr [''a'', ''b'', ''foo''],
        run convert_model serialize_model deserialize_model fnmatchcase_model demo
        [Create ''b'' Empty True, Create ''a'' Empty False, Set ''foo'' (Scalar (NBool False)), Delete ''ba*''])
   \<and> sorted [''a'', ''b'', ''foo'']"
proof -
  let ?st = "run convert_model serialize_model deserialize_model fnmatchcase_model demo
        [Create ''b'' Empty True, Create ''a'' Empty False, Set ''foo'' (Scalar (NBool False)), Delete ''ba*'']"
  have h1: "faults demo = []" by (simp add: demo_def)
  have h2: "distinct (map fst (register demo))" by (simp add: demo_def)
  have c: "fst (Repository_keys ?st) = Inr [''a'', ''b'', ''foo'']" by code_simp
  from keys_sorted [OF h1 h2, where convert = convert_model and serialize = serialize_model
      and deserialize = deserialize_model and fnmatchcase = fnmatchcase_model
      and ops = "[Create ''b'' Empty True, Create ''a'' Empty False, Set ''foo'' (Scalar (NBool False)), Delete ''ba*'']"]
  obtain ks where k: "Repository_keys ?st = (Inr ks, ?st)" "Repository_iter ?st = (Inr ks, ?st)" "sorted ks"
    by blast
  from k(1) c have "ks = [''a'', ''b'', ''foo'']" by simp
  with k h1 h2 show ?thesis by simp
qed

subsection \<open>The name at an index\<close>

text \<open>
  C10: with \<open>ks\<close> the sorted names (as many as \<^verbatim>\<open>len\<close> counts), \<^verbatim>\<open>get_name_at_index\<close> at an
  index from 0 below the count returns the name at that position and at an index from
  the count on returns \<^verbatim>\<open>None\<close>; at the negative index \<open>- k\<close> with \<open>k\<close> from 1 to the count
  it returns the \<open>k\<close>-th name from the end, and \<^verbatim>\<open>None\<close> below that.
\<close>

theorem name_at_index:
  assumes "faults st = []" and "fst (Repository_keys st) = Inr ks"
  shows "fst (Repository_len st) = Inr (length ks)
       \<and> (0 \<le> i \<and> i < int (length ks) \<longrightarrow>
            fst (Repository_get_name_at_index st i) = Inr (Some (ks ! nat i)))
       \<and> (int (length ks) \<le> i \<longrightarrow> fst (Repository_get_name_at_index st i) = Inr None)
       \<and> (1 \<le> k \<and> k \<le> length ks \<longrightarrow>
            fst (Repository_get_name_at_index st (- int k)) = Inr (Some (ks ! (length ks - k))))
       \<and> (i < - int (length ks) \<longrightarrow> fst (Repository_get_name_at_index st i) = Inr None)"
proof -
  from assms have ks: "ks = sort (map fst (register st))"
    by (simp add: Repository_keys_def get_names_healthy)
  have n: "SQLiteStorage_get_names st = (Inr ks, st)"
    using assms(1) ks by (simp add: get_names_healthy)
  have len: "fst (Repository_len st) = Inr (length ks)"
    using assms(1) ks by (simp add: Repository_len_def SQLiteStorage_count_def execute_healthy)
  have neg: "1 \<le> k \<and> k \<le> length ks \<Longrightarrow> nat (int (length ks) - int k) = length ks - k"
    by arith
  show ?thesis
    using len neg
    by (auto simp: Repository_get_name_at_index_def SQLiteStorage_get_name_at_index_def n Let_def)
qed

theorem name_at_index_witness:
  "faults sample = []
   \<and> fst (Repository_keys sample) = Inr [''foo.bar'', ''foo.baz'', ''zoo.bar'']
   \<and> fst (Repository_len sample) = Inr 3
   \<and> fst (Repository_get_name_at_index sample 0) = Inr (Some ''foo.bar'')
   \<and> fst (Repository_get_name_at_index sample 3) = Inr None
   \<and> fst (Repository_get_name_at_index sample (- 1)) = Inr (Some ''zoo.bar'')
   \<and> fst (Repository_get_name_at_index sample (- 3)) = Inr (Some ''foo.bar'')
   \<and> fst (Repository_get_name_at_index sample (- 4)) = Inr None"
proof -
  have h: "faults sample = []" by (simp add: sample_def)
  have k: "fst (Repository_keys sample) = Inr [''foo.bar'', ''foo.baz'', ''zoo.bar'']"
    by code_simp
  from name_at_index [OF h k, of 0 1] name_at_index [OF h k, of 3 3] name_at_index [OF h k, of "- 4" 0]
       h k
  show ?thesis by simp
qed

end
